theory Spec2Isabelle
  imports Complex_Main "HOL-Library.Word"
begin

section \<open>Values of the external engine\<close>

text \<open>
  An expression of the dataframe engine evaluates, per row, to a value or to missing
  (NA). A value of type \<open>'a\<close> that may be missing is an \<open>'a option\<close>, with \<open>None\<close>
  for missing.
\<close>

definition hl_is_defined :: "'a option \<Rightarrow> bool option" where
  "hl_is_defined x = Some (x \<noteq> None)"

definition hl_set_contains :: "'a set option \<Rightarrow> 'a \<Rightarrow> bool option" where
  "hl_set_contains s x = (case s of None \<Rightarrow> None | Some S \<Rightarrow> Some (x \<in> S))"

text \<open>
  The engine's case builder, \<^verbatim>\<open>hl.case()\<close> with its default \<^verbatim>\<open>missing_false=False\<close>:
  the clauses are tried in the order they were added; a clause whose condition is missing
  makes the whole expression missing, the first clause whose condition is true gives its
  value, and the default is taken when every condition is false.
\<close>

datatype 'a case_builder = CaseBuilder "(bool option \<times> 'a option) list"

definition hl_case :: "'a case_builder" where
  "hl_case = CaseBuilder []"

fun case_when :: "'a case_builder \<Rightarrow> bool option \<Rightarrow> 'a option \<Rightarrow> 'a case_builder" where
  "case_when (CaseBuilder cs) c v = CaseBuilder (cs @ [(c, v)])"

fun eval_clauses :: "(bool option \<times> 'a option) list \<Rightarrow> 'a option \<Rightarrow> 'a option" where
  "eval_clauses [] d = d"
| "eval_clauses ((None, v) # cs) d = None"
| "eval_clauses ((Some True, v) # cs) d = v"
| "eval_clauses ((Some False, v) # cs) d = eval_clauses cs d"

fun case_default :: "'a case_builder \<Rightarrow> 'a option \<Rightarrow> 'a option" where
  "case_default (CaseBuilder cs) d = eval_clauses cs d"

section \<open>sample_qc.py: relatedness filters\<close>

text \<open>
  \<^verbatim>\<open>get_relationship_filter_expr\<close> (sample_qc.py, lines 445-463).
\<close>

definition get_relationship_filter_expr ::
  "bool option \<Rightarrow> string \<Rightarrow> string set option \<Rightarrow> bool option" where
  "get_relationship_filter_expr hard_filtered_expr relationship relationship_set =
     case_default
       (case_when
          (case_when hl_case hard_filtered_expr None)
          (hl_is_defined relationship_set)
          (hl_set_contains relationship_set relationship))
       (Some False)"

section \<open>Python values, errors and the logger\<close>

datatype py_error =
    TypeError string
  | NameError string
  | ValueError string
  | ZeroDivisionError
  | HailError string

datatype log_record = Info string | Warning string

text \<open>
  Python's truth value of an optional string, as \<^verbatim>\<open>if args.run_hash\<close> tests it:
  \<^verbatim>\<open>None\<close> and the empty string are false.
\<close>

definition truthy :: "string option \<Rightarrow> bool" where
  "truthy s = (case s of None \<Rightarrow> False | Some v \<Rightarrow> v \<noteq> [])"

text \<open>
  Mutable list objects live in a store of references, so that two names bound to one
  list see each other's updates. \<^verbatim>\<open>list.remove(x)\<close> deletes the first occurrence of
  \<open>x\<close> in place and raises \<^verbatim>\<open>ValueError\<close> when there is none.
\<close>

type_synonym ref = nat

type_synonym heap = "ref \<Rightarrow> string list"

definition list_remove :: "heap \<Rightarrow> ref \<Rightarrow> string \<Rightarrow> py_error + heap" where
  "list_remove h r x =
     (if x \<in> set (h r) then Inr (h(r := remove1 x (h r)))
      else Inl (ValueError ''list.remove(x): x not in list''))"

section \<open>random_forest.py: command line\<close>

datatype str_or_list = PyStr string | PyList "string list"

record rf_args =
  slack_channel :: "string option"
  overwrite :: bool
  run_hash :: "string option"
  list_rf_runs :: bool
  annotate_for_rf :: bool
  train_rf_flag :: bool
  apply_rf :: bool
  finalize :: bool
  impute_features_no_variant_type :: bool
  n_partitions :: int
  fp_to_tp :: real
  test_intervals :: str_or_list
  num_trees :: int
  max_depth :: int
  adj :: bool
  vqsr_training :: bool
  vqsr_type :: string
  no_transmitted_singletons :: bool
  no_inbreeding_coeff :: bool
  filter_centromere_telomere :: bool

text \<open>
  What \<^verbatim>\<open>parser.parse_args()\<close> returns for an empty command line: every
  \<^verbatim>\<open>store_true\<close> flag is false, an option without a default is \<^verbatim>\<open>None\<close>.
\<close>

definition rf_parse_defaults :: rf_args where
  "rf_parse_defaults =
     \<lparr> slack_channel = None, overwrite = False, run_hash = None, list_rf_runs = False,
       annotate_for_rf = False, train_rf_flag = False, apply_rf = False, finalize = False,
       impute_features_no_variant_type = False, n_partitions = 5000, fp_to_tp = 1,
       test_intervals = PyStr ''chr20'', num_trees = 500, max_depth = 5, adj = False,
       vqsr_training = False, vqsr_type = ''alleleSpecificTrans'',
       no_transmitted_singletons = False, no_inbreeding_coeff = False,
       filter_centromere_telomere = False \<rparr>"

text \<open>
  \<^verbatim>\<open>parser.parse_args()\<close> (line 476) is the library's. On a command line it refuses (a
  value outside the choices of \<^verbatim>\<open>--vqsr_type\<close>, a value that is not a number where
  one is declared, an option without its value, an unknown option) it prints the usage
  and ends the process; on \<^verbatim>\<open>--help\<close> it prints the help and ends the process;
  otherwise it returns the namespace. The parser is a function from the command line to
  one of the two.
\<close>

datatype parser_exit = UsageError string | HelpExit

type_synonym rf_parser = "string list \<Rightarrow> parser_exit + rf_args"

text \<open>
  The checks after \<^verbatim>\<open>parse_args\<close> (lines 478-492): \<^verbatim>\<open>sys.exit(msg)\<close> ends the
  process with the message; otherwise \<^verbatim>\<open>main(args)\<close> is entered, inside the Slack
  notification context when a channel was given.
\<close>

datatype script_outcome = ParserExit parser_exit | SysExit string | EnterMain bool

definition rf_checks :: "rf_args \<Rightarrow> script_outcome" where
  "rf_checks args =
     (if \<not> truthy (run_hash args) \<and> \<not> train_rf_flag args \<and> apply_rf args then
        SysExit ''Error: --run_hash is required when running --apply_rf without running --train_rf too.''
      else if truthy (run_hash args) \<and> train_rf_flag args then
        SysExit ''Error: --run_hash and --train_rf are mutually exclusive. --train_rf will generate a run hash.''
      else if truthy (slack_channel args) then EnterMain True
      else EnterMain False)"

text \<open>The script from \<^verbatim>\<open>parse_args\<close> on (lines 476-492), run on a command line.\<close>

definition rf_script :: "rf_parser \<Rightarrow> string list \<Rightarrow> script_outcome" where
  "rf_script parse_args argv =
     (case parse_args argv of
        Inl stop \<Rightarrow> ParserExit stop
      | Inr args \<Rightarrow> rf_checks args)"

fun is_sys_exit :: "script_outcome \<Rightarrow> bool" where
  "is_sys_exit (SysExit m) = True"
| "is_sys_exit (ParserExit stop) = False"
| "is_sys_exit (EnterMain s) = False"

text \<open>
  The invalid flag combinations as the specification names them: \<^verbatim>\<open>--apply_rf\<close>
  without a run hash and without \<^verbatim>\<open>--train_rf\<close>, or a run hash together with
  \<^verbatim>\<open>--train_rf\<close>. A run hash is given when the namespace holds a non-empty value.
\<close>

definition invalid_flag_combination :: "rf_args \<Rightarrow> bool" where
  "invalid_flag_combination args =
     ((apply_rf args \<and> \<not> truthy (run_hash args) \<and> \<not> train_rf_flag args) \<or>
      (truthy (run_hash args) \<and> train_rf_flag args))"

text \<open>
  A parser for concrete runs: it knows \<^verbatim>\<open>--train_rf\<close>, \<^verbatim>\<open>--apply_rf\<close>,
  \<^verbatim>\<open>--run_hash\<close> with its value and \<^verbatim>\<open>--help\<close>, and refuses everything else.
\<close>

fun three_option_parser :: "rf_args \<Rightarrow> rf_parser" where
  "three_option_parser acc [] = Inr acc"
| "three_option_parser acc (opt # rest) =
     (if opt = ''--help'' then Inl HelpExit
      else if opt = ''--train_rf'' then three_option_parser (acc\<lparr>train_rf_flag := True\<rparr>) rest
      else if opt = ''--apply_rf'' then three_option_parser (acc\<lparr>apply_rf := True\<rparr>) rest
      else if opt = ''--run_hash'' then
        (case rest of
           [] \<Rightarrow> Inl (UsageError ''argument --run_hash: expected one argument'')
         | v # rest' \<Rightarrow> three_option_parser (acc\<lparr>run_hash := Some v\<rparr>) rest')
      else Inl (UsageError ''unrecognized arguments''))"

section \<open>random_forest.py: module state and training\<close>

text \<open>
  The module binds \<^verbatim>\<open>FEATURES\<close> to a list object when it is imported
  (lines 50-61). The state of the module is the store of list objects and the
  reference the global name holds.
\<close>

record rf_module =
  objects :: heap
  FEATURES :: ref

definition FEATURES_initial :: "string list" where
  "FEATURES_initial =
     [''InbreedingCoeff'', ''variant_type'', ''allele_type'', ''n_alt_alleles'',
      ''was_mixed'', ''AS_QD'', ''AS_pab_max'', ''AS_MQRankSum'', ''AS_SOR'',
      ''AS_ReadPosRankSum'']"

definition rf_module_initial :: rf_module where
  "rf_module_initial = \<lparr> objects = (\<lambda>r. []) (0 := FEATURES_initial), FEATURES = 0 \<rparr>"

definition read_FEATURES :: "rf_module \<Rightarrow> string list" where
  "read_FEATURES m = objects m (FEATURES m)"

text \<open>
  Boolean column expressions that \<^verbatim>\<open>train_rf\<close> builds for the true-positive and
  false-positive training sites.
\<close>

datatype bool_expr = Column string | Or bool_expr bool_expr

text \<open>
  The arguments \<^verbatim>\<open>train_rf\<close> hands to the external \<^verbatim>\<open>train_rf_model\<close>
  (lines 219-230). The model training itself is the library's.
\<close>

record rf_model_call =
  rf_features :: "string list"
  tp_expr :: bool_expr
  fp_expr :: bool_expr
  call_fp_to_tp :: real
  call_num_trees :: int
  call_max_depth :: int
  test_interval_strs :: "string list"
  centromere_telomere_filtered :: bool

text \<open>
  \<^verbatim>\<open>train_rf\<close> (lines 184-235). \<^verbatim>\<open>features = FEATURES\<close> binds the local name to
  the module's list object, so \<^verbatim>\<open>features.remove\<close> updates the object both names
  refer to. A test interval that is a string is wrapped in a list; an empty value
  reaches \<^verbatim>\<open>hl.literal(test_intervals).any\<close> as it is, which fails. Parsing the
  intervals, reading the VQSR table, the filter, the training and the final join are the
  engine's and the library's: the model keeps the interval strings and records what is
  passed on.
\<close>

definition train_rf :: "rf_module \<Rightarrow> rf_args \<Rightarrow> (py_error + rf_model_call) \<times> rf_module" where
  "train_rf m args =
     (let features = FEATURES m in
      case (if no_inbreeding_coeff args
            then list_remove (objects m) features ''InbreedingCoeff''
            else Inr (objects m)) of
        Inl e \<Rightarrow> (Inl e, m)
      | Inr h \<Rightarrow>
          (let m' = m\<lparr>objects := h\<rparr>;
               tp = (if vqsr_training args then Column ''vqsr_POSITIVE_TRAIN_SITE''
                     else if \<not> no_transmitted_singletons args
                     then Or (Or (Column ''omni'') (Column ''mills''))
                            (Column ''transmitted_singleton'')
                     else Or (Column ''omni'') (Column ''mills''));
               fp = (if vqsr_training args then Column ''vqsr_NEGATIVE_TRAIN_SITE''
                     else Column ''fail_hard_filters'')
           in case (case test_intervals args of
                      PyStr s \<Rightarrow> if s \<noteq> [] then Some [s] else None
                    | PyList l \<Rightarrow> if l \<noteq> [] then Some l else None) of
                None \<Rightarrow> (Inl (HailError ''hl.literal: no test intervals''), m')
              | Some intervals \<Rightarrow>
                  (Inr \<lparr> rf_features = h features, tp_expr = tp, fp_expr = fp,
                          call_fp_to_tp = fp_to_tp args, call_num_trees = num_trees args,
                          call_max_depth = max_depth args, test_interval_strs = intervals,
                          centromere_telomere_filtered = filter_centromere_telomere args \<rparr>,
                   m')))"

section \<open>The engine's table store\<close>

text \<open>
  Persisted tables are addressed by path. \<^verbatim>\<open>write\<close> refuses an existing path
  unless \<^verbatim>\<open>overwrite\<close> is set; reading a path that holds nothing fails.
  \<^verbatim>\<open>checkpoint(path, overwrite, _read_if_exists)\<close> writes the table and reads it back,
  except that with \<^verbatim>\<open>_read_if_exists\<close> and a table already at the path it
  only reads what is there.
\<close>

type_synonym 't store = "string \<rightharpoonup> 't"

definition hl_write :: "'t store \<Rightarrow> string \<Rightarrow> 't \<Rightarrow> bool \<Rightarrow> py_error + 't store" where
  "hl_write st path t ow =
     (if st path \<noteq> None \<and> \<not> ow then Inl (HailError ''file already exists'')
      else Inr (st(path \<mapsto> t)))"

definition hl_read :: "'t store \<Rightarrow> string \<Rightarrow> py_error + 't" where
  "hl_read st path =
     (case st path of None \<Rightarrow> Inl (HailError ''file does not exist'') | Some t \<Rightarrow> Inr t)"

definition hl_checkpoint ::
  "'t store \<Rightarrow> string \<Rightarrow> 't \<Rightarrow> bool \<Rightarrow> bool \<Rightarrow> py_error + ('t \<times> 't store)" where
  "hl_checkpoint st path t ow read_if_exists =
     (if \<not> read_if_exists \<or> st path = None then
        (case hl_write st path t ow of
           Inl e \<Rightarrow> Inl e
         | Inr st' \<Rightarrow> (case hl_read st' path of Inl e \<Rightarrow> Inl e | Inr t' \<Rightarrow> Inr (t', st')))
      else
        (case hl_read st path of Inl e \<Rightarrow> Inl e | Inr t' \<Rightarrow> Inr (t', st)))"

section \<open>The checkpoint calls of the three scripts\<close>

text \<open>
  Every \<^verbatim>\<open>.checkpoint(...)\<close> call of the sources, with the stage it belongs to, its
  line, its path expression, the two keyword arguments as written (a constant, the
  \<^verbatim>\<open>--overwrite\<close> flag, its negation, or left out, which is the engine's default,
  false), and what the stage does with the table the call returns: it binds it and goes
  on with it, or it drops it and goes on with the table it had computed.
\<close>

datatype flag_arg = ConstTrue | LeftOut | ArgsOverwrite | NotArgsOverwrite

datatype result_use = Bound | Discarded

fun flag_value :: "bool \<Rightarrow> flag_arg \<Rightarrow> bool" where
  "flag_value ow ConstTrue = True"
| "flag_value ow LeftOut = False"
| "flag_value ow ArgsOverwrite = ow"
| "flag_value ow NotArgsOverwrite = (\<not> ow)"

record checkpoint_site =
  site_file :: string
  site_stage :: string
  site_line :: nat
  site_path :: string
  overwrite_arg :: flag_arg
  read_if_exists_arg :: flag_arg
  site_result :: result_use

definition site ::
  "string \<Rightarrow> string \<Rightarrow> nat \<Rightarrow> string \<Rightarrow> flag_arg \<Rightarrow> flag_arg \<Rightarrow> result_use \<Rightarrow>
     checkpoint_site" where
  "site f s l p ow rie use =
     \<lparr> site_file = f, site_stage = s, site_line = l, site_path = p, overwrite_arg = ow,
       read_if_exists_arg = rie, site_result = use \<rparr>"

definition annotation_checkpoints :: "checkpoint_site list" where
  "annotation_checkpoints =
     [site ''generate_qc_annotations.py'' ''generate_ac'' 314 ''gs://gnomad-tmp/ac_tmp.ht''
        ArgsOverwrite NotArgsOverwrite Bound,
      site ''generate_qc_annotations.py'' ''generate_fam_stats'' 321
        ''gs://gnomad-tmp/fam_stats_tmp.ht'' ArgsOverwrite NotArgsOverwrite Bound]"

definition sample_qc_checkpoints :: "checkpoint_site list" where
  "sample_qc_checkpoints =
     [site ''sample_qc.py'' ''compute_qc_mt'' 121
        ''gs://gnomad-tmp/gnomad_v3_qc_mt_v2_sites_dense.mt'' ConstTrue LeftOut Bound,
      site ''sample_qc.py'' ''compute_qc_mt'' 123
        ''gs://gnomad-tmp/gnomad_v3_qc_mt_v2_sites_dense_repartitioned.mt'' ConstTrue LeftOut Bound,
      site ''sample_qc.py'' ''reannotate_sex'' 732 ''gs://gnomad-tmp/sex_ht_checkpoint.ht''
        ConstTrue LeftOut Bound,
      site ''sample_qc.py'' ''reannotate_sex'' 735 ''gs://gnomad-tmp/hardfilter_checkpoint.ht''
        ConstTrue LeftOut Bound,
      site ''sample_qc.py'' ''run_pc_relate'' 782 ''pc_relate_pca_scores.path''
        ArgsOverwrite NotArgsOverwrite Bound,
      site ''sample_qc.py'' ''reannotate_relatedness'' 787
        ''gs://gnomad-tmp/relatedness_ht_checkpoint.ht'' ConstTrue LeftOut Bound,
      site ''sample_qc.py'' ''run_pca'' 810 ''pca_samples_rankings.path''
        ArgsOverwrite NotArgsOverwrite Bound,
      site ''sample_qc.py'' ''run_pca'' 819 ''pca_related_samples_to_drop.path''
        ArgsOverwrite NotArgsOverwrite Discarded,
      site ''sample_qc.py'' ''assign_pops'' 829 ''pop.path'' ArgsOverwrite NotArgsOverwrite Bound,
      site ''sample_qc.py'' ''calculate_clinvar'' 855 ''gs://gnomad-tmp/clinvar_variants.mt''
        ConstTrue LeftOut Bound,
      site ''sample_qc.py'' ''compute_related_samples_to_drop'' 895
        ''release_samples_rankings.path'' ArgsOverwrite NotArgsOverwrite Bound,
      site ''sample_qc.py'' ''generate_metadata'' 910 ''meta.path''
        ArgsOverwrite NotArgsOverwrite Discarded]"

definition random_forest_checkpoints :: "checkpoint_site list" where
  "random_forest_checkpoints =
     [site ''random_forest.py'' ''annotate_for_rf'' 170 ''get_checkpoint_path(rf_annotation)''
        ConstTrue LeftOut Bound,
      site ''random_forest.py'' ''train_rf'' 328 ''get_rf(training, run_hash).path''
        ArgsOverwrite LeftOut Bound,
      site ''random_forest.py'' ''apply_rf'' 363 ''get_rf(rf_result, run_hash).path''
        ArgsOverwrite LeftOut Bound]"

definition checkpoint_sites :: "checkpoint_site list" where
  "checkpoint_sites =
     annotation_checkpoints @ sample_qc_checkpoints @ random_forest_checkpoints"

text \<open>
  Running the checkpoint of a site on a freshly computed table \<open>t\<close>, with the
  \<^verbatim>\<open>--overwrite\<close> flag of the command line.
\<close>

definition run_checkpoint ::
  "bool \<Rightarrow> checkpoint_site \<Rightarrow> 't store \<Rightarrow> 't \<Rightarrow> py_error + ('t \<times> 't store)" where
  "run_checkpoint ow s st t =
     hl_checkpoint st (site_path s) t (flag_value ow (overwrite_arg s))
       (flag_value ow (read_if_exists_arg s))"

text \<open>
  The checkpoint as the stage sees it: the table the stage goes on with, and the store.
\<close>

definition stage_checkpoint ::
  "bool \<Rightarrow> checkpoint_site \<Rightarrow> 't store \<Rightarrow> 't \<Rightarrow> py_error + ('t \<times> 't store)" where
  "stage_checkpoint ow s st t =
     (case run_checkpoint ow s st t of
        Inl e \<Rightarrow> Inl e
      | Inr (t', st') \<Rightarrow> Inr (case site_result s of Bound \<Rightarrow> t' | Discarded \<Rightarrow> t, st'))"

definition reads_if_exists :: "checkpoint_site \<Rightarrow> bool" where
  "reads_if_exists s = (read_if_exists_arg s = NotArgsOverwrite \<and> site_result s = Bound)"

definition always_overwrites :: "checkpoint_site \<Rightarrow> bool" where
  "always_overwrites s = (overwrite_arg s = ConstTrue \<and> read_if_exists_arg s = LeftOut)"

definition plain_write :: "checkpoint_site \<Rightarrow> bool" where
  "plain_write s = (overwrite_arg s = ArgsOverwrite \<and> read_if_exists_arg s = LeftOut)"

definition stage_and_line :: "checkpoint_site \<Rightarrow> string \<times> nat" where
  "stage_and_line s = (site_stage s, site_line s)"

section \<open>resources/annotations.py and the VCF export of generate_qc_annotations.py\<close>

text \<open>
  What a module-level name is bound to: a string, or a function without arguments that
  returns a path. Calling a string raises \<^verbatim>\<open>TypeError\<close> (str object is not callable).
\<close>

datatype py_object = StrObject string | PathFunction string

fun py_call :: "py_object \<Rightarrow> py_error + string" where
  "py_call (StrObject s) = Inl (TypeError ''str object is not callable'')"
| "py_call (PathFunction p) = Inr p"

definition ANNOTATIONS_ROOT :: string where
  "ANNOTATIONS_ROOT = ''gs://gnomad/annotations/hail-0.2/ht/genomes_v3''"

text \<open>The path of \<^verbatim>\<open>get_info(split)\<close> (annotations.py, lines 6-17).\<close>

definition get_info_path :: "bool \<Rightarrow> string" where
  "get_info_path split =
     ANNOTATIONS_ROOT @ ''/gnomad_genomes_v3_info'' @ (if split then ''.split'' else []) @ ''.ht''"

text \<open>Line 24 of annotations.py binds \<^verbatim>\<open>info_vcf_path\<close> to a formatted string.\<close>

definition info_vcf_path :: py_object where
  "info_vcf_path = StrObject (ANNOTATIONS_ROOT @ ''/gnomad_genomes_v3_info.vcf.bgz'')"

record 't annotations_env =
  ann_tables :: "'t store"
  ann_vcf_files :: "string \<rightharpoonup> 't"

text \<open>
  The \<^verbatim>\<open>--export_info_vcf\<close> stage of \<^verbatim>\<open>main\<close> (generate_qc_annotations.py, lines
  302-304): read the unsplit info table, then evaluate the arguments of
  \<^verbatim>\<open>hl.export_vcf\<close> from left to right, \<^verbatim>\<open>ht_to_vcf_mt(info_ht)\<close> and
  \<^verbatim>\<open>info_vcf_path()\<close>, then export. \<^verbatim>\<open>ht_to_vcf_mt\<close> is the library's.
\<close>

definition export_info_vcf_stage ::
  "('t \<Rightarrow> 't) \<Rightarrow> 't annotations_env \<Rightarrow> py_error + 't annotations_env" where
  "export_info_vcf_stage ht_to_vcf_mt env =
     (case hl_read (ann_tables env) (get_info_path False) of
        Inl e \<Rightarrow> Inl e
      | Inr info_ht \<Rightarrow>
          (let mt = ht_to_vcf_mt info_ht in
           case py_call info_vcf_path of
             Inl e \<Rightarrow> Inl e
           | Inr path \<Rightarrow> Inr (env\<lparr>ann_vcf_files := (ann_vcf_files env)(path \<mapsto> mt)\<rparr>)))"

section \<open>make_var_annot_hists.py\<close>

text \<open>
  The names the module binds at its top level: its imports (lines 1-15), \<^verbatim>\<open>logger\<close>,
  \<^verbatim>\<open>LOG10_ANNOTATIONS\<close> and its two functions. Reading a name inside a function that
  neither the function, the module nor the builtins bind raises \<^verbatim>\<open>NameError\<close>.
\<close>

definition hists_module_globals :: "string list" where
  "hists_module_globals =
     [''argparse'', ''json'', ''logging'', ''hl'', ''DataException'',
      ''create_frequency_bins_expr'', ''get_annotations_hists'', ''file_exists'',
      ''slack_notifications'', ''slack_token'', ''CURRENT_RELEASE'', ''annotation_hists_path'',
      ''qual_hists_json_path'', ''release_ht_path'', ''logger'', ''LOG10_ANNOTATIONS'',
      ''create_frequency_bins_expr_inbreeding'', ''main'']"

definition load_global :: "string list \<Rightarrow> string \<Rightarrow> py_error + string" where
  "load_global globals name = (if name \<in> set globals then Inr name else Inl (NameError name))"

record 't hists_env =
  release_tables :: "'t store"
  json_files :: "string \<rightharpoonup> string"
  stdout :: "string list"

text \<open>
  \<^verbatim>\<open>main\<close> (lines 57-101). The release table is read first; then
  \<^verbatim>\<open>hist_dict = ANNOTATIONS_HISTS\<close> reads a global name. The two aggregations (the
  min/max pass and the histograms, rendered as text) are the engine's, as are the two
  paths.
\<close>

definition hists_main ::
  "string \<Rightarrow> string \<Rightarrow> ('t \<Rightarrow> string) \<Rightarrow> ('t \<Rightarrow> string) \<Rightarrow> bool \<Rightarrow> 't hists_env \<Rightarrow>
     py_error + 't hists_env" where
  "hists_main release_ht_path qual_hists_json_path aggregate_minmax aggregate_hists
      first_pass env =
     (case hl_read (release_tables env) release_ht_path of
        Inl e \<Rightarrow> Inl e
      | Inr ht \<Rightarrow>
          (case load_global hists_module_globals ''ANNOTATIONS_HISTS'' of
             Inl e \<Rightarrow> Inl e
           | Inr hist_dict \<Rightarrow>
               if first_pass then Inr (env\<lparr>stdout := stdout env @ [aggregate_minmax ht]\<rparr>)
               else Inr (env\<lparr>json_files :=
                           (json_files env)(qual_hists_json_path \<mapsto> aggregate_hists ht)\<rparr>)))"

section \<open>random_forest.py: registering a training run\<close>

record run_input_args =
  arg_transmitted_singletons :: "bool option"
  arg_adj :: bool
  arg_vqsr_training :: bool
  arg_filter_centromere_telomere :: bool

record run_data =
  input_args :: run_input_args
  features_importance :: "(string \<times> real) list"
  run_test_intervals :: str_or_list
  test_results :: "(string \<times> string \<times> int) list option"
  test_accuracy :: "real option"

text \<open>
  \<^verbatim>\<open>get_run_data\<close> (lines 254-299). A row of the test results holds the label, the
  prediction and the number of variants. The accuracy is a Python float, read here as a
  real number; the division raises when no variant was counted. The two test entries are
  absent from the dictionary when \<^verbatim>\<open>test_results\<close> is \<^verbatim>\<open>None\<close>.
\<close>

definition get_run_data ::
  "bool \<Rightarrow> bool \<Rightarrow> bool \<Rightarrow> bool \<Rightarrow> str_or_list \<Rightarrow> (string \<times> real) list \<Rightarrow>
     (string \<times> string \<times> int) list option \<Rightarrow> py_error + run_data" where
  "get_run_data transmitted_singletons adj_arg vqsr filter_ct intervals importance results =
     (let run =
        \<lparr> input_args =
             \<lparr> arg_transmitted_singletons = (if vqsr then None else Some transmitted_singletons),
               arg_adj = adj_arg, arg_vqsr_training = vqsr,
               arg_filter_centromere_telomere = filter_ct \<rparr>,
           features_importance = importance, run_test_intervals = intervals,
           test_results = None, test_accuracy = None \<rparr>
      in case results of
           None \<Rightarrow> Inr run
         | Some rows \<Rightarrow>
             (let (tps, total) =
                fold (\<lambda>(label, prediction, n) (tps, total).
                        (if label = prediction then tps + n else tps, total + n))
                  rows (0, 0)
              in if total = 0 then Inl ZeroDivisionError
                 else Inr (run\<lparr>test_results := Some rows,
                             test_accuracy := Some (real_of_int tps / real_of_int total)\<rparr>)))"

text \<open>
  \<^verbatim>\<open>get_rf_runs\<close> (lines 238-251): the content of the JSON file, or the empty
  dictionary (and a logged warning) when the file does not exist.
\<close>

definition get_rf_runs :: "(string \<rightharpoonup> 'd) option \<Rightarrow> (string \<rightharpoonup> 'd)" where
  "get_rf_runs file = (case file of Some runs \<Rightarrow> runs | None \<Rightarrow> Map.empty)"

text \<open>
  The loop of lines 324-325. \<open>draws\<close> is the sequence of values that
  \<^verbatim>\<open>str(uuid.uuid4())[:8]\<close> yields, \<open>n\<close> the number of values drawn so far. The loop
  need not end: not returning is \<open>None\<close>.
\<close>

partial_function (option) regenerate_run_hash ::
  "(nat \<Rightarrow> string) \<Rightarrow> (string \<rightharpoonup> 'd) \<Rightarrow> nat \<Rightarrow> string \<Rightarrow> (string \<times> nat) option" where
  "regenerate_run_hash draws rf_runs n hash =
     (if rf_runs hash \<noteq> None
      then regenerate_run_hash draws rf_runs (Suc n) (draws n)
      else Some (hash, n))"

text \<open>
  What the branch takes from the libraries: the trained table and model for the
  arguments \<^verbatim>\<open>train_rf\<close> passes on, the two globals evaluated on the table, and the
  resource paths.
\<close>

record ('t, 'm) rf_library =
  train_rf_model :: "rf_model_call \<Rightarrow> 't \<times> 'm"
  eval_features_importance :: "'t \<Rightarrow> (string \<times> real) list"
  eval_test_results :: "'t \<Rightarrow> (string \<times> string \<times> int) list option"
  get_rf_path :: "string \<Rightarrow> string \<Rightarrow> string"
  get_rf_annotated_path :: "bool \<Rightarrow> string"

record ('t, 'm) rf_env =
  rf_runs_json :: "(string \<rightharpoonup> run_data) option"
  rf_tables :: "'t store"
  rf_models :: "'m store"

text \<open>
  The \<^verbatim>\<open>--train_rf\<close> branch of \<^verbatim>\<open>main\<close> (lines 321-349). The result is the final
  module state and environment with either the run hash or the error raised; effects
  that happened before an error stay.
\<close>

definition main_train_rf ::
  "(nat \<Rightarrow> string) \<Rightarrow> ('t, 'm) rf_library \<Rightarrow> rf_args \<Rightarrow> rf_module \<Rightarrow> ('t, 'm) rf_env \<Rightarrow>
     ((py_error + string) \<times> rf_module \<times> ('t, 'm) rf_env) option" where
  "main_train_rf draws lib args m env =
     (let rf_runs = get_rf_runs (rf_runs_json env) in
      case regenerate_run_hash draws rf_runs 1 (draws 0) of
        None \<Rightarrow> None
      | Some (hash, n) \<Rightarrow>
          Some
            (case hl_read (rf_tables env) (get_rf_annotated_path lib (adj args)) of
               Inl e \<Rightarrow> (Inl e, m, env)
             | Inr annotated \<Rightarrow>
                 (case train_rf m args of
                    (Inl e, m') \<Rightarrow> (Inl e, m', env)
                  | (Inr call, m') \<Rightarrow>
                      (let (ht, rf_model) = train_rf_model lib call in
                       case hl_checkpoint (rf_tables env)
                              (get_rf_path lib ''training'' hash) ht (overwrite args) False of
                         Inl e \<Rightarrow> (Inl e, m', env)
                       | Inr (ht', tables') \<Rightarrow>
                           (let env1 = env\<lparr>rf_tables := tables'\<rparr> in
                            case get_run_data (\<not> no_transmitted_singletons args) (adj args)
                                   (vqsr_training args) (filter_centromere_telomere args)
                                   (test_intervals args) (eval_features_importance lib ht')
                                   (eval_test_results lib ht') of
                              Inl e \<Rightarrow> (Inl e, m', env1)
                            | Inr run \<Rightarrow>
                                (let env2 = env1\<lparr>rf_runs_json :=
                                                    Some (rf_runs(hash \<mapsto> run))\<rparr> in
                                 case hl_write (rf_models env2)
                                        (get_rf_path lib ''model'' hash) rf_model
                                        (overwrite args) of
                                   Inl e \<Rightarrow> (Inl e, m', env2)
                                 | Inr models' \<Rightarrow>
                                     (Inr hash, m', env2\<lparr>rf_models := models'\<rparr>)))))))"

text \<open>
  A small instance of the branch: the JSON file holds one run under \<^verbatim>\<open>aaaaaaaa\<close>, the
  first value drawn is that key again and the later ones are \<^verbatim>\<open>bbbbbbbb\<close>.
\<close>

definition example_run :: run_data where
  "example_run =
     \<lparr> input_args = \<lparr> arg_transmitted_singletons = Some True, arg_adj = False,
                        arg_vqsr_training = False, arg_filter_centromere_telomere = False \<rparr>,
       features_importance = [], run_test_intervals = PyStr ''chr20'', test_results = None,
       test_accuracy = None \<rparr>"

definition example_library :: "(string, string) rf_library" where
  "example_library =
     \<lparr> train_rf_model = (\<lambda>c. (''trained table'', ''model'')),
       eval_features_importance = (\<lambda>t. []),
       eval_test_results = (\<lambda>t. None),
       get_rf_path = (\<lambda>d h. d @ ''/'' @ h),
       get_rf_annotated_path = (\<lambda>a. ''annotated'') \<rparr>"

definition example_env :: "(string, string) rf_env" where
  "example_env =
     \<lparr> rf_runs_json = Some [''aaaaaaaa'' \<mapsto> example_run],
       rf_tables = [''annotated'' \<mapsto> ''annotated table''],
       rf_models = Map.empty \<rparr>"

definition example_draws :: "nat \<Rightarrow> string" where
  "example_draws n = (if n = 0 then ''aaaaaaaa'' else ''bbbbbbbb'')"

section \<open>sample_qc.py: joining tables\<close>

text \<open>
  The engine's table operations that \<^verbatim>\<open>join_tables\<close> calls: the row count, re-keying
  by a field and the keyed join with its join type. Re-keying and joining can be
  refused by the engine (an unknown field, key types that differ, an unknown join type).
\<close>

record 't table_engine =
  tbl_count :: "'t \<Rightarrow> nat"
  tbl_key_by :: "'t \<Rightarrow> string \<Rightarrow> py_error + 't"
  tbl_join :: "'t \<Rightarrow> 't \<Rightarrow> string \<Rightarrow> py_error + 't"

text \<open>Decimal rendering of a count, as the f-string of \<^verbatim>\<open>compare_row_counts\<close> prints it.\<close>

fun str_of_nat :: "nat \<Rightarrow> string" where
  "str_of_nat n =
     (if n < 10 then [''0123456789'' ! n]
      else str_of_nat (n div 10) @ [''0123456789'' ! (n mod 10)])"

text \<open>\<^verbatim>\<open>compare_row_counts\<close> (lines 466-477); the logger is threaded through.\<close>

definition compare_row_counts ::
  "'t table_engine \<Rightarrow> log_record list \<Rightarrow> 't \<Rightarrow> 't \<Rightarrow> log_record list \<times> bool" where
  "compare_row_counts E lg ht1 ht2 =
     (let r_count1 = tbl_count E ht1;
          r_count2 = tbl_count E ht2
      in (lg @ [Info (str_of_nat r_count1 @ '' rows in left table; '' @
                      str_of_nat r_count2 @ '' rows in right table'')],
          r_count1 = r_count2))"

text \<open>
  \<^verbatim>\<open>join_tables\<close> (lines 480-498). The receiver \<^verbatim>\<open>left_ht.key_by(left_key)\<close> is
  evaluated before the argument \<^verbatim>\<open>right_ht.key_by(right_key)\<close>.
\<close>

definition join_tables ::
  "'t table_engine \<Rightarrow> log_record list \<Rightarrow> 't \<Rightarrow> string \<Rightarrow> 't \<Rightarrow> string \<Rightarrow> string \<Rightarrow>
     log_record list \<times> (py_error + 't)" where
  "join_tables E lg left_ht left_key right_ht right_key join_type =
     (let (lg1, sample_count_match) = compare_row_counts E lg left_ht right_ht;
          lg2 = (if \<not> sample_count_match
                 then lg1 @ [Warning ''Sample counts in left and right tables do not match!'']
                 else lg1)
      in (lg2,
          case tbl_key_by E left_ht left_key of
            Inl e \<Rightarrow> Inl e
          | Inr l \<Rightarrow>
              (case tbl_key_by E right_ht right_key of
                 Inl e \<Rightarrow> Inl e
               | Inr r \<Rightarrow> tbl_join E l r join_type)))"

text \<open>
  The join the claim names: the left table keyed by the left key joined with the right
  table keyed by the right key. Row counts play no part in it.
\<close>

definition keyed_join ::
  "('t \<Rightarrow> string \<Rightarrow> py_error + 't) \<Rightarrow> ('t \<Rightarrow> 't \<Rightarrow> string \<Rightarrow> py_error + 't) \<Rightarrow>
     't \<Rightarrow> string \<Rightarrow> 't \<Rightarrow> string \<Rightarrow> string \<Rightarrow> py_error + 't" where
  "keyed_join key_by join left_ht left_key right_ht right_key join_type =
     (case key_by left_ht left_key of
        Inl e \<Rightarrow> Inl e
      | Inr l \<Rightarrow>
          (case key_by right_ht right_key of
             Inl e \<Rightarrow> Inl e
           | Inr r \<Rightarrow> join l r join_type))"

fun is_warning :: "log_record \<Rightarrow> bool" where
  "is_warning (Warning m) = True"
| "is_warning (Info m) = False"

text \<open>
  A small engine for concrete runs: a table is its key field and its rows, each row a
  list of fields and values; only the inner join on the value of the key field is
  implemented.
\<close>

type_synonym toy_table = "string \<times> (string \<times> string) list list"

definition toy_engine :: "toy_table table_engine" where
  "toy_engine =
     \<lparr> tbl_count = (\<lambda>t. length (snd t)),
       tbl_key_by = (\<lambda>t k. if list_all (\<lambda>row. map_of row k \<noteq> None) (snd t)
                            then Inr (k, snd t) else Inl (HailError ''no such field'')),
       tbl_join = (\<lambda>l r how.
          if how = ''inner'' then
            Inr (fst l,
                 concat (map (\<lambda>lrow. map (\<lambda>rrow. lrow @ rrow)
                    (filter (\<lambda>rrow. map_of rrow (fst r) = map_of lrow (fst l)) (snd r)))
                    (snd l)))
          else Inl (HailError ''join type not implemented'')) \<rparr>"

section \<open>generate_qc_annotations.py: allele counts of compute_info\<close>

text \<open>
  An entry of the sparse matrix table: the local alleles \<^verbatim>\<open>LA\<close> (indices into the
  row's alleles), the local genotype call \<^verbatim>\<open>LGT\<close> (the allele indices of the call,
  into \<^verbatim>\<open>LA\<close>), and the fields the adj filter reads. Each may be missing.
\<close>

record entry =
  LA :: "int list option"
  LGT :: "nat list option"
  GQ :: "int option"
  DP :: "int option"
  LAD :: "int list option"

record variant_row =
  alleles :: "string list"
  entries :: "entry list"

text \<open>Array expressions of the engine: membership, and the position of the first match.\<close>

definition hl_array_contains :: "'a list option \<Rightarrow> 'a \<Rightarrow> bool option" where
  "hl_array_contains a x = (case a of None \<Rightarrow> None | Some xs \<Rightarrow> Some (x \<in> set xs))"

fun hl_array_index :: "'a list \<Rightarrow> 'a \<Rightarrow> nat option" where
  "hl_array_index [] x = None"
| "hl_array_index (y # ys) x =
     (if y = x then Some 0 else map_option Suc (hl_array_index ys x))"

text \<open>
  \<^verbatim>\<open>call.one_hot_alleles(alleles)\<close>: for each of the \<open>n\<close> alleles, how many
  alleles of the call are that one.
\<close>

definition one_hot_alleles :: "nat list \<Rightarrow> nat \<Rightarrow> int list" where
  "one_hot_alleles call n = map (\<lambda>j. int (count_list call j)) [0..<n]"

text \<open>
  The aggregators. \<^verbatim>\<open>hl.agg.sum\<close> skips missing values and sums 32-bit values into
  a 64-bit integer, which a column (fewer than \<open>2^31\<close> entries) cannot overflow: the sum
  is an integer here. \<^verbatim>\<open>hl.agg.filter\<close> keeps the records whose condition is true.
  \<^verbatim>\<open>hl.agg.group_by\<close> gives a dictionary with one key per group that has a record.
\<close>

definition agg_sum :: "int option list \<Rightarrow> int" where
  "agg_sum vs = sum_list (map (\<lambda>v. case v of None \<Rightarrow> 0 | Some x \<Rightarrow> x) vs)"

definition agg_filter :: "('r \<Rightarrow> bool option) \<Rightarrow> 'r list \<Rightarrow> 'r list" where
  "agg_filter cond rs = filter (\<lambda>r. cond r = Some True) rs"

definition agg_group_by :: "('r \<Rightarrow> 'k) \<Rightarrow> ('r list \<Rightarrow> 'v) \<Rightarrow> 'r list \<Rightarrow> ('k \<rightharpoonup> 'v)" where
  "agg_group_by key agg rs =
     (\<lambda>k. if k \<in> set (map key rs) then Some (agg (filter (\<lambda>r. key r = k) rs)) else None)"

definition dict_get :: "('k \<rightharpoonup> 'v) \<Rightarrow> 'k \<Rightarrow> 'v \<Rightarrow> 'v" where
  "dict_get d k default_value = (case d k of None \<Rightarrow> default_value | Some v \<Rightarrow> v)"

text \<open>\<^verbatim>\<open>hl.int32\<close> of a 64-bit value keeps its low 32 bits, read as two's complement.\<close>

definition hl_int32 :: "int \<Rightarrow> int" where
  "hl_int32 x = sint (word_of_int x :: 32 word)"

text \<open>
  The value summed for allele \<open>ai\<close> at an entry (lines 85-87):
  \<^verbatim>\<open>LGT.one_hot_alleles(LA.map(str))[LA.index(ai)]\<close>, missing when the call or the
  local alleles are.
\<close>

definition allele_dosage :: "entry \<Rightarrow> int \<Rightarrow> int option" where
  "allele_dosage e ai =
     (case (LGT e, LA e) of
        (Some call, Some la) \<Rightarrow>
          (case hl_array_index la ai of
             Some k \<Rightarrow> Some (one_hot_alleles call (length la) ! k)
           | None \<Rightarrow> None)
      | _ \<Rightarrow> None)"

text \<open>
  \<^verbatim>\<open>grp_ac_expr\<close> (lines 79-92): for each alternate allele index, the dosage summed
  over the entries that carry the allele, grouped by the adj value of the entry.
  \<^verbatim>\<open>get_adj_expr\<close> is the library's, a function of the entry here.
\<close>

definition alt_alleles_range_array :: "variant_row \<Rightarrow> int list" where
  "alt_alleles_range_array row = map int [1..<length (alleles row)]"

definition grp_ac_expr :: "(entry \<Rightarrow> bool option) \<Rightarrow> variant_row \<Rightarrow> (bool option \<rightharpoonup> int) list" where
  "grp_ac_expr get_adj_expr row =
     map (\<lambda>ai.
            agg_group_by get_adj_expr (\<lambda>es. agg_sum (map (\<lambda>e. allele_dosage e ai) es))
              (agg_filter (\<lambda>e. hl_array_contains (LA e) ai) (entries row)))
       (alt_alleles_range_array row)"

text \<open>The two annotations of lines 97-100.\<close>

definition AC_raw :: "(entry \<Rightarrow> bool option) \<Rightarrow> variant_row \<Rightarrow> int list" where
  "AC_raw get_adj_expr row =
     map (\<lambda>i. hl_int32 (dict_get i (Some True) 0 + dict_get i (Some False) 0))
       (grp_ac_expr get_adj_expr row)"

definition AC :: "(entry \<Rightarrow> bool option) \<Rightarrow> variant_row \<Rightarrow> int list" where
  "AC get_adj_expr row =
     map (\<lambda>i. hl_int32 (dict_get i (Some True) 0)) (grp_ac_expr get_adj_expr row)"

text \<open>
  The rows of \<^verbatim>\<open>compute_info\<close> with their allele counts: the rows with more than one
  allele (line 55), each with \<^verbatim>\<open>AC\<close> and \<^verbatim>\<open>AC_raw\<close>.
\<close>

definition compute_info :: "(entry \<Rightarrow> bool option) \<Rightarrow> variant_row list \<Rightarrow> (int list \<times> int list) list" where
  "compute_info get_adj_expr mt =
     map (\<lambda>row. (AC get_adj_expr row, AC_raw get_adj_expr row))
       (filter (\<lambda>row. length (alleles row) > 1) mt)"

text \<open>
  The sum of the adj and the non-adj group of the \<open>i\<close>-th alternate allele, before the
  conversion to 32 bits.
\<close>

definition raw_allele_sum :: "(entry \<Rightarrow> bool option) \<Rightarrow> variant_row \<Rightarrow> nat \<Rightarrow> int" where
  "raw_allele_sum get_adj_expr row i =
     dict_get (grp_ac_expr get_adj_expr row ! i) (Some True) 0 +
     dict_get (grp_ac_expr get_adj_expr row ! i) (Some False) 0"

text \<open>Entries and an adj rule for concrete rows.\<close>

definition hom_var_entry :: entry where
  "hom_var_entry =
     \<lparr> LA = Some [0, 1], LGT = Some [1, 1], GQ = Some 99, DP = Some 30, LAD = Some [0, 30] \<rparr>"

definition het_low_gq_entry :: entry where
  "het_low_gq_entry =
     \<lparr> LA = Some [0, 1], LGT = Some [0, 1], GQ = Some 5, DP = Some 30, LAD = Some [15, 15] \<rparr>"

definition gq_adj :: "entry \<Rightarrow> bool option" where
  "gq_adj e = (case GQ e of None \<Rightarrow> None | Some g \<Rightarrow> Some (20 \<le> g))"

definition small_row :: variant_row where
  "small_row = \<lparr> alleles = [''A'', ''T''], entries = [hom_var_entry, het_low_gq_entry] \<rparr>"

text \<open>
  \<^verbatim>\<open>compute_info\<close> takes no table: it reads the callset (line 51). What the model
  asks of a callset: a row has fewer than \<open>2^30\<close> entries, one per sample, and a
  call has at most two alleles.
\<close>

definition diploid_callset :: "variant_row list \<Rightarrow> bool" where
  "diploid_callset mt =
     list_all (\<lambda>row. length (entries row) < 2 ^ 30 \<and>
                 list_all (\<lambda>e. case LGT e of None \<Rightarrow> True | Some call \<Rightarrow> length call \<le> 2)
                   (entries row)) mt"

section \<open>random_forest.py: strand odds ratio\<close>

text \<open>
  \<^verbatim>\<open>calc_SOR\<close> (lines 100-110), the local function of \<^verbatim>\<open>create_rf_ht\<close>. The counts
  are integers, taken as unbounded here (the element type of \<^verbatim>\<open>AS_SB_TABLE\<close> is the
  engine's), and the 64-bit floats are read as real numbers: the model gives the value
  the expression denotes, not its rounding. Indexing the array past its end is refused by
  the engine.
\<close>

definition calc_SOR :: "int list \<Rightarrow> py_error + real" where
  "calc_SOR SB =
     (if length SB < 4 then Inl (HailError ''array index out of bounds'')
      else
        (let refFw = real_of_int (SB ! 0 + 1);
             refRv = real_of_int (SB ! 1 + 1);
             altFw = real_of_int (SB ! 2 + 1);
             altRv = real_of_int (SB ! 3 + 1);
             symmetricalRatio =
               ((refFw * altRv) / (altFw * refRv)) + ((altFw * refRv) / (refFw * altRv));
             refRatio = min refRv refFw / max refRv refFw;
             altRatio = min altFw altRv / max altFw altRv;
             SOR = ln symmetricalRatio + ln refRatio - ln altRatio
         in Inr SOR))"

text \<open>
  The strand odds ratio as the specification words it, on the four counts after the
  pseudocount has been added.
\<close>

definition strand_odds_ratio :: "real \<Rightarrow> real \<Rightarrow> real \<Rightarrow> real \<Rightarrow> real" where
  "strand_odds_ratio refFw refRv altFw altRv =
     ln ((refFw * altRv) / (altFw * refRv) + (altFw * refRv) / (refFw * altRv)) +
     ln (min refRv refFw / max refRv refFw) -
     ln (min altFw altRv / max altFw altRv)"

section \<open>Theorems\<close>

text \<open>
  C10. A hard-filtered sample gets missing whatever its relationship set is; a sample that
  is not hard-filtered gets whether its relationship set contains the relationship when the
  set is defined, and False when the set is missing.
\<close>

theorem get_relationship_filter_expr_cases:
  "get_relationship_filter_expr (Some True) relationship relationship_set = None \<and>
   get_relationship_filter_expr (Some False) relationship (Some S) = Some (relationship \<in> S) \<and>
   get_relationship_filter_expr (Some False) relationship None = Some False"
  by (simp add: get_relationship_filter_expr_def hl_case_def hl_is_defined_def
      hl_set_contains_def)

theorem get_relationship_filter_expr_cases_witness:
  "get_relationship_filter_expr (Some True) ''siblings'' (Some {''siblings''}) = None \<and>
   get_relationship_filter_expr (Some False) ''siblings'' (Some {''siblings'', ''parent-child''})
     = Some True \<and>
   get_relationship_filter_expr (Some False) ''siblings'' None = Some False"
  using get_relationship_filter_expr_cases [of "''siblings''" "Some {''siblings''}"
      "{''siblings'', ''parent-child''}"]
  by simp

text \<open>
  C5. On a command line the parser accepts, the script exits with its own error message,
  before \<^verbatim>\<open>main\<close> is entered, exactly when the flag combination is invalid, and every
  other combination enters \<^verbatim>\<open>main\<close>. A command line the parser refuses ends in the
  parser, which is no flag combination of the script.
\<close>

theorem rf_script_exit_iff:
  "(parse_args argv = Inl stop \<longrightarrow> rf_script parse_args argv = ParserExit stop) \<and>
   (parse_args argv = Inr args \<longrightarrow>
      is_sys_exit (rf_script parse_args argv) = invalid_flag_combination args \<and>
      (invalid_flag_combination args \<or>
       rf_script parse_args argv = EnterMain (truthy (slack_channel args))))"
  by (auto simp: rf_script_def rf_checks_def invalid_flag_combination_def)

theorem rf_script_exit_iff_witness:
  "is_sys_exit (rf_script (three_option_parser rf_parse_defaults) [''--apply_rf'']) \<and>
   is_sys_exit (rf_script (three_option_parser rf_parse_defaults)
      [''--run_hash'', ''abcd1234'', ''--train_rf'']) \<and>
   rf_script (three_option_parser rf_parse_defaults)
      [''--run_hash'', ''abcd1234'', ''--apply_rf''] = EnterMain False \<and>
   rf_script (three_option_parser rf_parse_defaults) [''--train_rf'', ''--apply_rf'']
     = EnterMain False \<and>
   rf_script (three_option_parser rf_parse_defaults) [''--help''] = ParserExit HelpExit"
proof -
  let ?P = "three_option_parser rf_parse_defaults"
  have p1: "?P [''--apply_rf''] = Inr (rf_parse_defaults\<lparr>apply_rf := True\<rparr>)"
    and p2: "?P [''--run_hash'', ''abcd1234'', ''--train_rf''] =
      Inr (rf_parse_defaults\<lparr>run_hash := Some ''abcd1234'', train_rf_flag := True\<rparr>)"
    and p3: "?P [''--run_hash'', ''abcd1234'', ''--apply_rf''] =
      Inr (rf_parse_defaults\<lparr>run_hash := Some ''abcd1234'', apply_rf := True\<rparr>)"
    and p4: "?P [''--train_rf'', ''--apply_rf''] =
      Inr (rf_parse_defaults\<lparr>train_rf_flag := True, apply_rf := True\<rparr>)"
    and p5: "?P [''--help''] = Inl HelpExit"
    by simp_all
  have c1: "is_sys_exit (rf_script ?P [''--apply_rf''])"
    using rf_script_exit_iff [of ?P "[''--apply_rf'']" _ "rf_parse_defaults\<lparr>apply_rf := True\<rparr>"] p1
    by (simp add: invalid_flag_combination_def rf_parse_defaults_def truthy_def)
  have c2: "is_sys_exit (rf_script ?P [''--run_hash'', ''abcd1234'', ''--train_rf''])"
    using rf_script_exit_iff [of ?P "[''--run_hash'', ''abcd1234'', ''--train_rf'']" _
        "rf_parse_defaults\<lparr>run_hash := Some ''abcd1234'', train_rf_flag := True\<rparr>"] p2
    by (simp add: invalid_flag_combination_def rf_parse_defaults_def truthy_def)
  have c3: "rf_script ?P [''--run_hash'', ''abcd1234'', ''--apply_rf''] = EnterMain False"
    using rf_script_exit_iff [of ?P "[''--run_hash'', ''abcd1234'', ''--apply_rf'']" _
        "rf_parse_defaults\<lparr>run_hash := Some ''abcd1234'', apply_rf := True\<rparr>"] p3
    by (auto simp: invalid_flag_combination_def rf_parse_defaults_def truthy_def)
  have c4: "rf_script ?P [''--train_rf'', ''--apply_rf''] = EnterMain False"
    using rf_script_exit_iff [of ?P "[''--train_rf'', ''--apply_rf'']" _
        "rf_parse_defaults\<lparr>train_rf_flag := True, apply_rf := True\<rparr>"] p4
    by (auto simp: invalid_flag_combination_def rf_parse_defaults_def truthy_def)
  have c5: "rf_script ?P [''--help''] = ParserExit HelpExit"
    using rf_script_exit_iff [of ?P "[''--help'']" HelpExit] p5 by simp
  show ?thesis using c1 c2 c3 c4 c5 by blast
qed

text \<open>
  C7. With \<^verbatim>\<open>--no_inbreeding_coeff\<close>, \<^verbatim>\<open>train_rf\<close> returns with the module-level
  \<^verbatim>\<open>FEATURES\<close> list one element shorter, and a second call fails in
  \<^verbatim>\<open>list.remove\<close>.
\<close>

theorem train_rf_changes_FEATURES:
  "read_FEATURES rf_module_initial = FEATURES_initial \<and>
   read_FEATURES
     (snd (train_rf rf_module_initial (rf_parse_defaults\<lparr>no_inbreeding_coeff := True\<rparr>))) =
   [''variant_type'', ''allele_type'', ''n_alt_alleles'', ''was_mixed'', ''AS_QD'',
    ''AS_pab_max'', ''AS_MQRankSum'', ''AS_SOR'', ''AS_ReadPosRankSum''] \<and>
   fst (train_rf
          (snd (train_rf rf_module_initial (rf_parse_defaults\<lparr>no_inbreeding_coeff := True\<rparr>)))
          (rf_parse_defaults\<lparr>no_inbreeding_coeff := True\<rparr>)) =
   Inl (ValueError ''list.remove(x): x not in list'')"
  by (simp add: train_rf_def rf_module_initial_def rf_parse_defaults_def list_remove_def
      FEATURES_initial_def read_FEATURES_def)

text \<open>
  C1, as stated, fails at the first checkpoint of \<^verbatim>\<open>compute_qc_mt\<close>: run without
  \<^verbatim>\<open>--overwrite\<close> on a store that already holds a table at its path, it replaces the
  table by the recomputed one and the stage goes on with the recomputed one.
\<close>

theorem compute_qc_mt_checkpoint_counterexample:
  "site ''sample_qc.py'' ''compute_qc_mt'' 121
      ''gs://gnomad-tmp/gnomad_v3_qc_mt_v2_sites_dense.mt'' ConstTrue LeftOut Bound
     \<in> set checkpoint_sites \<and>
   stage_checkpoint False
     (site ''sample_qc.py'' ''compute_qc_mt'' 121
        ''gs://gnomad-tmp/gnomad_v3_qc_mt_v2_sites_dense.mt'' ConstTrue LeftOut Bound)
     [''gs://gnomad-tmp/gnomad_v3_qc_mt_v2_sites_dense.mt'' \<mapsto> ''persisted'']
     ''recomputed'' =
   Inr (''recomputed'',
        [''gs://gnomad-tmp/gnomad_v3_qc_mt_v2_sites_dense.mt'' \<mapsto> ''recomputed''])"
  by (simp add: checkpoint_sites_def sample_qc_checkpoints_def stage_checkpoint_def
      run_checkpoint_def hl_checkpoint_def hl_write_def hl_read_def site_def)

lemma stage_checkpoint_reads_if_exists:
  "reads_if_exists s \<Longrightarrow>
   stage_checkpoint False s st t =
     (case st (site_path s) of
        Some old \<Rightarrow> Inr (old, st)
      | None \<Rightarrow> Inr (t, st(site_path s \<mapsto> t)))"
  by (simp add: reads_if_exists_def stage_checkpoint_def run_checkpoint_def hl_checkpoint_def
      hl_write_def hl_read_def split: option.splits)

lemma stage_checkpoint_always_overwrites:
  "always_overwrites s \<Longrightarrow> stage_checkpoint ow s st t = Inr (t, st(site_path s \<mapsto> t))"
  by (simp add: always_overwrites_def stage_checkpoint_def run_checkpoint_def
      hl_checkpoint_def hl_write_def hl_read_def split: result_use.splits)

lemma stage_checkpoint_plain_write:
  "plain_write s \<Longrightarrow>
   stage_checkpoint False s st t =
     (case st (site_path s) of
        Some old \<Rightarrow> Inl (HailError ''file already exists'')
      | None \<Rightarrow> Inr (t, st(site_path s \<mapsto> t)))"
  by (simp add: plain_write_def stage_checkpoint_def run_checkpoint_def hl_checkpoint_def
      hl_write_def hl_read_def split: option.splits result_use.splits)

text \<open>
  C1, amended. Run without \<^verbatim>\<open>--overwrite\<close>, a stage whose checkpoint passes
  \<^verbatim>\<open>_read_if_exists=not args.overwrite\<close> and binds the result (generate_ac,
  generate_fam_stats, run_pc_relate, the rankings of run_pca, assign_pops,
  compute_related_samples_to_drop) goes on with the persisted table and leaves the store
  as it is when the path holds a table, and writes the computed table when it holds none.
  The checkpoints with \<^verbatim>\<open>overwrite=True\<close> (compute_qc_mt, reannotate_sex,
  reannotate_relatedness, calculate_clinvar, annotate_for_rf) always write the computed
  table and go on with it. The two of the random-forest \<^verbatim>\<open>main\<close> pass
  \<^verbatim>\<open>overwrite=args.overwrite\<close> alone and fail on an existing path.
\<close>

theorem checkpoints_without_overwrite:
  "map stage_and_line (filter reads_if_exists checkpoint_sites) =
     [(''generate_ac'', 314), (''generate_fam_stats'', 321), (''run_pc_relate'', 782),
      (''run_pca'', 810), (''assign_pops'', 829),
      (''compute_related_samples_to_drop'', 895)] \<and>
   map stage_and_line (filter always_overwrites checkpoint_sites) =
     [(''compute_qc_mt'', 121), (''compute_qc_mt'', 123), (''reannotate_sex'', 732),
      (''reannotate_sex'', 735), (''reannotate_relatedness'', 787),
      (''calculate_clinvar'', 855), (''annotate_for_rf'', 170)] \<and>
   map stage_and_line (filter plain_write checkpoint_sites) =
     [(''train_rf'', 328), (''apply_rf'', 363)] \<and>
   (\<forall>s \<in> set checkpoint_sites.
      (reads_if_exists s \<longrightarrow>
         stage_checkpoint False s st t =
           (case st (site_path s) of
              Some old \<Rightarrow> Inr (old, st)
            | None \<Rightarrow> Inr (t, st(site_path s \<mapsto> t)))) \<and>
      (always_overwrites s \<longrightarrow>
         stage_checkpoint False s st t = Inr (t, st(site_path s \<mapsto> t))) \<and>
      (plain_write s \<longrightarrow>
         stage_checkpoint False s st t =
           (case st (site_path s) of
              Some old \<Rightarrow> Inl (HailError ''file already exists'')
            | None \<Rightarrow> Inr (t, st(site_path s \<mapsto> t)))))"
proof -
  have stages:
    "map stage_and_line (filter reads_if_exists checkpoint_sites) =
       [(''generate_ac'', 314), (''generate_fam_stats'', 321), (''run_pc_relate'', 782),
        (''run_pca'', 810), (''assign_pops'', 829),
        (''compute_related_samples_to_drop'', 895)]"
    "map stage_and_line (filter always_overwrites checkpoint_sites) =
       [(''compute_qc_mt'', 121), (''compute_qc_mt'', 123), (''reannotate_sex'', 732),
        (''reannotate_sex'', 735), (''reannotate_relatedness'', 787),
        (''calculate_clinvar'', 855), (''annotate_for_rf'', 170)]"
    "map stage_and_line (filter plain_write checkpoint_sites) =
       [(''train_rf'', 328), (''apply_rf'', 363)]"
    by (simp_all add: checkpoint_sites_def annotation_checkpoints_def
        sample_qc_checkpoints_def random_forest_checkpoints_def site_def reads_if_exists_def
        always_overwrites_def plain_write_def stage_and_line_def)
  show ?thesis
    using stages
    by (simp add: stage_checkpoint_reads_if_exists stage_checkpoint_always_overwrites
        stage_checkpoint_plain_write)
qed

theorem checkpoints_without_overwrite_witness:
  "stage_checkpoint False
     (site ''generate_qc_annotations.py'' ''generate_ac'' 314 ''gs://gnomad-tmp/ac_tmp.ht''
        ArgsOverwrite NotArgsOverwrite Bound)
     [''gs://gnomad-tmp/ac_tmp.ht'' \<mapsto> ''persisted''] ''recomputed'' =
   Inr (''persisted'', [''gs://gnomad-tmp/ac_tmp.ht'' \<mapsto> ''persisted'']) \<and>
   stage_checkpoint False
     (site ''random_forest.py'' ''annotate_for_rf'' 170 ''get_checkpoint_path(rf_annotation)''
        ConstTrue LeftOut Bound)
     [''get_checkpoint_path(rf_annotation)'' \<mapsto> ''persisted''] ''recomputed'' =
   Inr (''recomputed'', [''get_checkpoint_path(rf_annotation)'' \<mapsto> ''recomputed'']) \<and>
   stage_checkpoint False
     (site ''random_forest.py'' ''apply_rf'' 363 ''get_rf(rf_result, run_hash).path''
        ArgsOverwrite LeftOut Bound)
     [''get_rf(rf_result, run_hash).path'' \<mapsto> ''persisted''] ''recomputed'' =
   Inl (HailError ''file already exists'')"
proof -
  let ?a = "site ''generate_qc_annotations.py'' ''generate_ac'' 314
      ''gs://gnomad-tmp/ac_tmp.ht'' ArgsOverwrite NotArgsOverwrite Bound"
  let ?b = "site ''random_forest.py'' ''annotate_for_rf'' 170
      ''get_checkpoint_path(rf_annotation)'' ConstTrue LeftOut Bound"
  let ?c = "site ''random_forest.py'' ''apply_rf'' 363 ''get_rf(rf_result, run_hash).path''
      ArgsOverwrite LeftOut Bound"
  have mem: "?a \<in> set checkpoint_sites" "?b \<in> set checkpoint_sites"
    "?c \<in> set checkpoint_sites"
    by (simp_all add: checkpoint_sites_def annotation_checkpoints_def
        sample_qc_checkpoints_def random_forest_checkpoints_def)
  have kind: "reads_if_exists ?a" "always_overwrites ?b" "plain_write ?c"
    by (simp_all add: site_def reads_if_exists_def always_overwrites_def plain_write_def)
  have a: "stage_checkpoint False ?a [''gs://gnomad-tmp/ac_tmp.ht'' \<mapsto> ''persisted'']
      ''recomputed'' = Inr (''persisted'', [''gs://gnomad-tmp/ac_tmp.ht'' \<mapsto> ''persisted''])"
    using checkpoints_without_overwrite
      [of "[''gs://gnomad-tmp/ac_tmp.ht'' \<mapsto> ''persisted'']" "''recomputed''"]
      mem(1) kind(1)
    by (auto simp: site_def)
  have b: "stage_checkpoint False ?b [''get_checkpoint_path(rf_annotation)'' \<mapsto> ''persisted'']
      ''recomputed'' =
      Inr (''recomputed'', [''get_checkpoint_path(rf_annotation)'' \<mapsto> ''recomputed''])"
    using checkpoints_without_overwrite
      [of "[''get_checkpoint_path(rf_annotation)'' \<mapsto> ''persisted'']" "''recomputed''"]
      mem(2) kind(2)
    by (auto simp: site_def)
  have c: "stage_checkpoint False ?c [''get_rf(rf_result, run_hash).path'' \<mapsto> ''persisted'']
      ''recomputed'' = Inl (HailError ''file already exists'')"
    using checkpoints_without_overwrite
      [of "[''get_rf(rf_result, run_hash).path'' \<mapsto> ''persisted'']" "''recomputed''"]
      mem(3) kind(3)
    by (auto simp: site_def)
  show ?thesis using a b c by blast
qed

text \<open>
  C2. With the unsplit info table in place, the export stage ends in the
  \<^verbatim>\<open>TypeError\<close> of calling the string \<^verbatim>\<open>info_vcf_path\<close>; without the table it
  ends in the read error. No run exports a VCF.
\<close>

theorem export_info_vcf_stage_raises:
  "export_info_vcf_stage ht_to_vcf_mt env =
     (case ann_tables env (get_info_path False) of
        None \<Rightarrow> Inl (HailError ''file does not exist'')
      | Some info_ht \<Rightarrow> Inl (TypeError ''str object is not callable''))"
  by (simp add: export_info_vcf_stage_def hl_read_def info_vcf_path_def split: option.splits)

text \<open>
  C6. With the release table in place, \<^verbatim>\<open>main\<close> ends in the \<^verbatim>\<open>NameError\<close> of
  \<^verbatim>\<open>ANNOTATIONS_HISTS\<close>, with or without \<^verbatim>\<open>--first_pass\<close>; without the table it ends
  in the read error. No run writes the JSON file.
\<close>

theorem hists_main_raises:
  "hists_main release_ht_path qual_hists_json_path aggregate_minmax aggregate_hists
      first_pass env =
     (case release_tables env release_ht_path of
        None \<Rightarrow> Inl (HailError ''file does not exist'')
      | Some ht \<Rightarrow> Inl (NameError ''ANNOTATIONS_HISTS''))"
  by (simp add: hists_main_def hl_read_def load_global_def hists_module_globals_def
      split: option.splits)

lemma regenerate_run_hash_fresh:
  "regenerate_run_hash draws rf_runs n c = Some y \<Longrightarrow> rf_runs (fst y) = None"
  by (rule regenerate_run_hash.raw_induct
      [where P = "\<lambda>draws rf_runs n c y. rf_runs (fst y) = None"])
    (auto split: if_splits)

lemma regenerate_run_hash_returns:
  "rf_runs (draws j) = None \<Longrightarrow> n \<le> j \<Longrightarrow>
   regenerate_run_hash draws rf_runs n c \<noteq> None"
proof (induction "j - n" arbitrary: n c)
  case 0
  then have "n = j" by simp
  with 0 show ?case
    by (simp add: regenerate_run_hash.simps [of draws rf_runs j c]
        regenerate_run_hash.simps [of draws rf_runs "Suc j" "draws j"])
next
  case (Suc d)
  then have "d = j - Suc n" "Suc n \<le> j" by simp_all
  with Suc have "regenerate_run_hash draws rf_runs (Suc n) (draws n) \<noteq> None" by blast
  then show ?case
    by (simp add: regenerate_run_hash.simps [of draws rf_runs n c])
qed

lemma regenerate_run_hash_first:
  "rf_runs (draws j) = None \<Longrightarrow> regenerate_run_hash draws rf_runs 1 (draws 0) \<noteq> None"
proof (cases j)
  case 0
  assume "rf_runs (draws j) = None"
  with 0 show ?thesis
    by (simp add: regenerate_run_hash.simps [of draws rf_runs "Suc 0" "draws 0"])
next
  case (Suc i)
  assume "rf_runs (draws j) = None"
  then show ?thesis using Suc by (intro regenerate_run_hash_returns [of rf_runs draws j]) simp_all
qed

lemma main_train_rf_returns:
  assumes "get_rf_runs (rf_runs_json env) (draws j) = None"
  shows "main_train_rf draws lib args m env \<noteq> None"
proof -
  obtain h n where
    "regenerate_run_hash draws (get_rf_runs (rf_runs_json env)) 1 (draws 0) = Some (h, n)"
    using regenerate_run_hash_first [of "get_rf_runs (rf_runs_json env)" draws j] assms by auto
  then show ?thesis by (simp add: main_train_rf_def Let_def)
qed

lemma main_train_rf_json:
  assumes "main_train_rf draws lib args m env = Some (outcome, m', env')"
  shows "\<exists>h n. regenerate_run_hash draws (get_rf_runs (rf_runs_json env)) 1 (draws 0) = Some (h, n) \<and>
            (rf_runs_json env' = rf_runs_json env \<and> isl outcome \<or>
             (\<exists>run. rf_runs_json env' = Some ((get_rf_runs (rf_runs_json env))(h \<mapsto> run)) \<and>
                (isl outcome \<or> outcome = Inr h)))"
  using assms
  by (auto simp: main_train_rf_def Let_def
      split: option.splits sum.splits prod.splits if_splits)

text \<open>
  C9. When some value drawn is not a key of the loaded dictionary, the branch returns.
  Whenever it returns, a run hash it registered was not a key of the loaded dictionary, the
  JSON file is either left as it was or holds the loaded dictionary with one entry added
  under that fresh key, and every entry of the loaded dictionary is still in the file
  with its value.
\<close>

theorem main_train_rf_run_hash_fresh:
  "((\<exists>j. get_rf_runs (rf_runs_json env) (draws j) = None) \<longrightarrow>
      main_train_rf draws lib args m env \<noteq> None) \<and>
   (\<forall>outcome m' env'.
      main_train_rf draws lib args m env = Some (outcome, m', env') \<longrightarrow>
      (\<forall>h. outcome = Inr h \<longrightarrow>
         get_rf_runs (rf_runs_json env) h = None \<and>
         (\<exists>run. rf_runs_json env' = Some ((get_rf_runs (rf_runs_json env))(h \<mapsto> run)))) \<and>
      (rf_runs_json env' = rf_runs_json env \<or>
       (\<exists>h run. get_rf_runs (rf_runs_json env) h = None \<and>
          rf_runs_json env' = Some ((get_rf_runs (rf_runs_json env))(h \<mapsto> run)))) \<and>
      (\<forall>k \<in> dom (get_rf_runs (rf_runs_json env)).
         get_rf_runs (rf_runs_json env') k = get_rf_runs (rf_runs_json env) k))"
proof -
  have returns: "(\<exists>j. get_rf_runs (rf_runs_json env) (draws j) = None) \<longrightarrow>
      main_train_rf draws lib args m env \<noteq> None"
    using main_train_rf_returns by blast
  have registered: "(\<forall>h. outcome = Inr h \<longrightarrow>
         get_rf_runs (rf_runs_json env) h = None \<and>
         (\<exists>run. rf_runs_json env' = Some ((get_rf_runs (rf_runs_json env))(h \<mapsto> run)))) \<and>
      (rf_runs_json env' = rf_runs_json env \<or>
       (\<exists>h run. get_rf_runs (rf_runs_json env) h = None \<and>
          rf_runs_json env' = Some ((get_rf_runs (rf_runs_json env))(h \<mapsto> run)))) \<and>
      (\<forall>k \<in> dom (get_rf_runs (rf_runs_json env)).
         get_rf_runs (rf_runs_json env') k = get_rf_runs (rf_runs_json env) k)"
    if run: "main_train_rf draws lib args m env = Some (outcome, m', env')"
    for outcome m' env'
  proof -
    from main_train_rf_json [OF run]
    obtain h n where loop:
      "regenerate_run_hash draws (get_rf_runs (rf_runs_json env)) 1 (draws 0) = Some (h, n)"
      and cases: "rf_runs_json env' = rf_runs_json env \<and> isl outcome \<or>
        (\<exists>r. rf_runs_json env' = Some ((get_rf_runs (rf_runs_json env))(h \<mapsto> r)) \<and>
           (isl outcome \<or> outcome = Inr h))"
      by blast
    have fresh: "get_rf_runs (rf_runs_json env) h = None"
      using regenerate_run_hash_fresh [OF loop] by simp
    have a: "\<forall>x. outcome = Inr x \<longrightarrow>
         get_rf_runs (rf_runs_json env) x = None \<and>
         (\<exists>run. rf_runs_json env' = Some ((get_rf_runs (rf_runs_json env))(x \<mapsto> run)))"
      using cases fresh by auto
    have b: "rf_runs_json env' = rf_runs_json env \<or>
       (\<exists>h run. get_rf_runs (rf_runs_json env) h = None \<and>
          rf_runs_json env' = Some ((get_rf_runs (rf_runs_json env))(h \<mapsto> run)))"
      using cases fresh by blast
    have c: "get_rf_runs (rf_runs_json env') k = get_rf_runs (rf_runs_json env) k"
      if "k \<in> dom (get_rf_runs (rf_runs_json env))" for k
    proof -
      from that fresh have "k \<noteq> h" by auto
      with cases show ?thesis by (auto simp: get_rf_runs_def)
    qed
    show ?thesis using a b c by blast
  qed
  show ?thesis using returns registered by blast
qed

lemma example_main_train_rf:
  "main_train_rf example_draws example_library rf_parse_defaults rf_module_initial example_env =
     Some (Inr ''bbbbbbbb'', rf_module_initial,
       example_env\<lparr>rf_tables := [''annotated'' \<mapsto> ''annotated table'',
                                  ''training/bbbbbbbb'' \<mapsto> ''trained table''],
                   rf_runs_json := Some [''aaaaaaaa'' \<mapsto> example_run,
                                         ''bbbbbbbb'' \<mapsto> example_run],
                   rf_models := [''model/bbbbbbbb'' \<mapsto> ''model'']\<rparr>)"
proof -
  have loop: "regenerate_run_hash example_draws [''aaaaaaaa'' \<mapsto> example_run] (Suc 0)
      (example_draws 0) = Some (''bbbbbbbb'', 2)"
    by (simp add: regenerate_run_hash.simps [of example_draws _ "Suc 0" "''aaaaaaaa''"]
        regenerate_run_hash.simps [of example_draws _ "Suc (Suc 0)" "''bbbbbbbb''"]
        example_draws_def numeral_2_eq_2)
  have run: "get_run_data True False False False (PyStr ''chr20'') [] None = Inr example_run"
    by (simp add: get_run_data_def example_run_def)
  have train: "train_rf rf_module_initial rf_parse_defaults =
      (Inr \<lparr> rf_features = FEATURES_initial,
              tp_expr = Or (Or (Column ''omni'') (Column ''mills''))
                          (Column ''transmitted_singleton''),
              fp_expr = Column ''fail_hard_filters'', call_fp_to_tp = 1,
              call_num_trees = 500, call_max_depth = 5, test_interval_strs = [''chr20''],
              centromere_telomere_filtered = False \<rparr>, rf_module_initial)"
    by (simp add: train_rf_def rf_parse_defaults_def rf_module_initial_def)
  have args: "adj rf_parse_defaults = False" "overwrite rf_parse_defaults = False"
    "no_transmitted_singletons rf_parse_defaults = False"
    "vqsr_training rf_parse_defaults = False"
    "filter_centromere_telomere rf_parse_defaults = False"
    "test_intervals rf_parse_defaults = PyStr ''chr20''"
    by (simp_all add: rf_parse_defaults_def)
  show ?thesis
    by (simp add: main_train_rf_def example_env_def get_rf_runs_def loop Let_def
        example_library_def hl_read_def train args hl_checkpoint_def
        hl_write_def run)
qed

theorem main_train_rf_run_hash_fresh_witness:
  "main_train_rf example_draws example_library rf_parse_defaults rf_module_initial example_env
     \<noteq> None \<and>
   get_rf_runs (rf_runs_json example_env) ''bbbbbbbb'' = None \<and>
   get_rf_runs
     (rf_runs_json (snd (snd (the (main_train_rf example_draws example_library
        rf_parse_defaults rf_module_initial example_env))))) ''aaaaaaaa'' = Some example_run"
proof -
  have fresh_draw: "\<exists>j. get_rf_runs (rf_runs_json example_env) (example_draws j) = None"
    by (rule exI [of _ 1]) (simp add: example_env_def get_rf_runs_def example_draws_def)
  have old: "''aaaaaaaa'' \<in> dom (get_rf_runs (rf_runs_json example_env))"
    by (simp add: example_env_def get_rf_runs_def)
  note inst = main_train_rf_run_hash_fresh
      [of example_env example_draws example_library rf_parse_defaults rf_module_initial]
  from inst fresh_draw
  have 1: "main_train_rf example_draws example_library rf_parse_defaults rf_module_initial
      example_env \<noteq> None"
    by blast
  from inst example_main_train_rf
  have 2: "get_rf_runs (rf_runs_json example_env) ''bbbbbbbb'' = None"
    by blast
  from inst example_main_train_rf old
  have 3: "get_rf_runs
     (rf_runs_json (snd (snd (the (main_train_rf example_draws example_library
        rf_parse_defaults rf_module_initial example_env))))) ''aaaaaaaa''
      = get_rf_runs (rf_runs_json example_env) ''aaaaaaaa''"
    by (simp add: example_main_train_rf)
  have 4: "get_rf_runs (rf_runs_json example_env) ''aaaaaaaa'' = Some example_run"
    by (simp add: example_env_def get_rf_runs_def)
  show ?thesis using 1 2 3 4 by simp
qed

text \<open>
  C4. \<^verbatim>\<open>join_tables\<close> returns the join of the left table keyed by the left key with
  the right table keyed by the right key, whatever the row counts are; beyond the
  info line with the two counts it logs exactly one warning when the counts differ and none
  when they agree.
\<close>

theorem join_tables_result_and_warning:
  "snd (join_tables E lg left_ht left_key right_ht right_key join_type) =
     keyed_join (tbl_key_by E) (tbl_join E) left_ht left_key right_ht right_key join_type \<and>
   fst (join_tables E lg left_ht left_key right_ht right_key join_type) =
     lg @ [Info (str_of_nat (tbl_count E left_ht) @ '' rows in left table; '' @
                 str_of_nat (tbl_count E right_ht) @ '' rows in right table'')] @
     (if tbl_count E left_ht \<noteq> tbl_count E right_ht
      then [Warning ''Sample counts in left and right tables do not match!''] else []) \<and>
   (Warning ''Sample counts in left and right tables do not match!''
      \<in> set (drop (length lg)
                (fst (join_tables E lg left_ht left_key right_ht right_key join_type)))) =
     (tbl_count E left_ht \<noteq> tbl_count E right_ht)"
  by (simp add: join_tables_def compare_row_counts_def keyed_join_def Let_def)

theorem join_tables_result_and_warning_witness:
  "join_tables toy_engine []
     (''id'', [[(''s'', ''a''), (''x'', ''1'')], [(''s'', ''b''), (''x'', ''2'')]]) ''s''
     (''id'', [[(''s'', ''b''), (''y'', ''3'')]]) ''s'' ''inner'' =
   ([Info ''2 rows in left table; 1 rows in right table'',
     Warning ''Sample counts in left and right tables do not match!''],
    Inr (''s'', [[(''s'', ''b''), (''x'', ''2''), (''s'', ''b''), (''y'', ''3'')]]))"
proof -
  let ?l = "(''id'', [[(''s'', ''a''), (''x'', ''1'')], [(''s'', ''b''), (''x'', ''2'')]])"
  let ?r = "(''id'', [[(''s'', ''b''), (''y'', ''3'')]])"
  have counts: "tbl_count toy_engine ?l = 2" "tbl_count toy_engine ?r = 1"
    by (simp_all add: toy_engine_def)
  have strs: "str_of_nat 2 = ''2''" "str_of_nat 1 = ''1''"
    by simp_all
  have joined: "keyed_join (tbl_key_by toy_engine) (tbl_join toy_engine) ?l ''s'' ?r ''s''
      ''inner'' = Inr (''s'', [[(''s'', ''b''), (''x'', ''2''), (''s'', ''b''), (''y'', ''3'')]])"
    by (simp add: keyed_join_def toy_engine_def)
  show ?thesis
    using join_tables_result_and_warning [of toy_engine "[]" ?l "''s''" ?r "''s''" "''inner''"]
    by (simp add: counts strs joined prod_eq_iff)
qed

lemma hl_int32_id: "- (2 ^ 31) \<le> x \<Longrightarrow> x < 2 ^ 31 \<Longrightarrow> hl_int32 x = x"
  by (simp add: hl_int32_def sint_sbintrunc' signed_take_bit_int_eq_self)

lemma allele_dosage_nonneg: "allele_dosage e ai = Some x \<Longrightarrow> 0 \<le> x"
proof -
  have nth_nonneg: "0 \<le> one_hot_alleles c n ! k" if "k < n" for c n k
    using that by (simp add: one_hot_alleles_def)
  have idx: "hl_array_index la a = Some k \<Longrightarrow> k < length la" for la :: "int list" and a k
    by (induction la arbitrary: k) (auto split: if_splits)
  assume "allele_dosage e ai = Some x"
  then show ?thesis
    by (auto simp: allele_dosage_def split: option.splits dest!: idx intro: nth_nonneg)
qed

lemma agg_sum_nonneg: "(\<And>v x. v \<in> set vs \<Longrightarrow> v = Some x \<Longrightarrow> 0 \<le> x) \<Longrightarrow> 0 \<le> agg_sum vs"
  unfolding agg_sum_def
  by (rule sum_list_nonneg) (auto split: option.splits)

lemma group_nonneg:
  "0 \<le> dict_get (agg_group_by key (\<lambda>es. agg_sum (map (\<lambda>e. allele_dosage e ai) es)) rs) k 0"
  by (auto simp: dict_get_def agg_group_by_def intro!: agg_sum_nonneg
      dest: allele_dosage_nonneg [OF sym])

lemma grp_ac_expr_nonneg:
  "i < length (grp_ac_expr adj_expr row) \<Longrightarrow> 0 \<le> dict_get (grp_ac_expr adj_expr row ! i) k 0"
  by (simp add: grp_ac_expr_def group_nonneg)

lemma length_AC: "length (AC adj_expr row) = length (alleles row) - 1"
  "length (AC_raw adj_expr row) = length (alleles row) - 1"
  "length (grp_ac_expr adj_expr row) = length (alleles row) - 1"
  by (simp_all add: AC_def AC_raw_def grp_ac_expr_def alt_alleles_range_array_def)

lemma AC_le_AC_raw_bounded:
  assumes "(ac, ac_raw) \<in> set (compute_info adj_expr mt)"
  shows "\<exists>row \<in> set mt. 1 < length (alleles row) \<and> ac = AC adj_expr row \<and> ac_raw = AC_raw adj_expr row \<and>
           length ac = length (alleles row) - 1 \<and> length ac_raw = length ac \<and>
           (\<forall>i < length ac. raw_allele_sum adj_expr row i < 2 ^ 31 \<longrightarrow>
              0 \<le> ac ! i \<and> ac ! i \<le> ac_raw ! i)"
proof -
  from assms obtain row where row: "row \<in> set mt" "1 < length (alleles row)"
    "ac = AC adj_expr row" "ac_raw = AC_raw adj_expr row"
    by (auto simp: compute_info_def)
  have "0 \<le> AC adj_expr row ! i \<and> AC adj_expr row ! i \<le> AC_raw adj_expr row ! i"
    if i: "i < length (AC adj_expr row)" and small: "raw_allele_sum adj_expr row i < 2 ^ 31" for i
  proof -
    let ?g = "grp_ac_expr adj_expr row ! i"
    have len: "i < length (grp_ac_expr adj_expr row)" using i by (simp add: length_AC)
    have t: "0 \<le> dict_get ?g (Some True) 0" and f: "0 \<le> dict_get ?g (Some False) 0"
      using len by (simp_all add: grp_ac_expr_nonneg)
    have sum: "dict_get ?g (Some True) 0 + dict_get ?g (Some False) 0 < 2 ^ 31"
      using small by (simp add: raw_allele_sum_def)
    have ac_i: "AC adj_expr row ! i = dict_get ?g (Some True) 0"
      using len t f sum by (simp add: AC_def hl_int32_id)
    have raw_i: "AC_raw adj_expr row ! i = dict_get ?g (Some True) 0 + dict_get ?g (Some False) 0"
      using len t f sum by (simp add: AC_raw_def hl_int32_id)
    show ?thesis using ac_i raw_i t f by simp
  qed
  with row show ?thesis by (auto simp: length_AC intro!: bexI [of _ row])
qed


lemma small_row_counts:
  "AC gq_adj small_row = [2]" "AC_raw gq_adj small_row = [3]"
  "raw_allele_sum gq_adj small_row 0 = 3"
  by code_simp+

lemma allele_dosage_le:
  assumes "allele_dosage e ai = Some x"
    and "case LGT e of None \<Rightarrow> True | Some call \<Rightarrow> length call \<le> 2"
  shows "x \<le> 2"
proof -
  have idx: "hl_array_index la a = Some k \<Longrightarrow> k < length la" for la :: "int list" and a k
    by (induction la arbitrary: k) (auto split: if_splits)
  from assms obtain call la k where c: "LGT e = Some call" "LA e = Some la"
    "hl_array_index la ai = Some k" "x = one_hot_alleles call (length la) ! k"
    by (auto simp: allele_dosage_def split: option.splits)
  from idx [OF c(3)] have "x = int (count_list call k)"
    using c(4) by (simp add: one_hot_alleles_def)
  moreover have "count_list call k \<le> length call" by (rule count_le_length)
  moreover have "length call \<le> 2" using assms(2) c(1) by simp
  ultimately show ?thesis by simp
qed

lemma agg_sum_le:
  "(\<And>v x. v \<in> set vs \<Longrightarrow> v = Some x \<Longrightarrow> x \<le> 2) \<Longrightarrow> agg_sum vs \<le> 2 * int (length vs)"
proof (induction vs)
  case Nil
  then show ?case by (simp add: agg_sum_def)
next
  case (Cons v vs)
  have "agg_sum vs \<le> 2 * int (length vs)" using Cons by simp
  moreover have "(case v of None \<Rightarrow> 0 | Some x \<Rightarrow> x) \<le> (2::int)"
    using Cons.prems [of v] by (cases v) simp_all
  ultimately show ?case by (simp add: agg_sum_def)
qed

lemma dict_get_group:
  "dict_get (agg_group_by key (\<lambda>es. agg_sum (map f es)) rs) k 0 =
     agg_sum (map f (filter (\<lambda>r. key r = k) rs))"
proof (cases "k \<in> set (map key rs)")
  case True
  then show ?thesis by (simp add: dict_get_def agg_group_by_def)
next
  case False
  then have "filter (\<lambda>r. key r = k) rs = []" by (auto simp: filter_empty_conv)
  with False show ?thesis by (simp add: dict_get_def agg_group_by_def agg_sum_def)
qed

lemma length_two_filters:
  "(\<And>x. \<not> (P x \<and> Q x)) \<Longrightarrow> length (filter P xs) + length (filter Q xs) \<le> length xs"
  by (induction xs) auto

lemma two_groups_le:
  assumes "a \<noteq> b"
    and "\<And>r x. r \<in> set rs \<Longrightarrow> f r = Some x \<Longrightarrow> x \<le> 2"
  shows "dict_get (agg_group_by key (\<lambda>es. agg_sum (map f es)) rs) a 0 +
         dict_get (agg_group_by key (\<lambda>es. agg_sum (map f es)) rs) b 0 \<le> 2 * int (length rs)"
proof -
  have grp: "agg_sum (map f (filter P rs)) \<le> 2 * int (length (filter P rs))" for P
  proof -
    have "agg_sum (map f (filter P rs)) \<le> 2 * int (length (map f (filter P rs)))"
    proof (rule agg_sum_le)
      fix v x
      assume "v \<in> set (map f (filter P rs))" and "v = Some x"
      then obtain r where "r \<in> set rs" "f r = Some x" by auto
      then show "x \<le> 2" by (rule assms(2))
    qed
    then show ?thesis by simp
  qed
  have "length (filter (\<lambda>r. key r = a) rs) + length (filter (\<lambda>r. key r = b) rs) \<le> length rs"
    using assms(1) by (intro length_two_filters) auto
  then show ?thesis
    using grp [of "\<lambda>r. key r = a"] grp [of "\<lambda>r. key r = b"]
    by (simp add: dict_get_group)
qed

lemma raw_allele_sum_le:
  assumes "i < length (grp_ac_expr adj_expr row)"
    and "list_all (\<lambda>e. case LGT e of None \<Rightarrow> True | Some call \<Rightarrow> length call \<le> 2) (entries row)"
  shows "raw_allele_sum adj_expr row i \<le> 2 * int (length (entries row))"
proof -
  let ?rs = "agg_filter (\<lambda>e. hl_array_contains (LA e) (alt_alleles_range_array row ! i)) (entries row)"
  have i: "i < length (alt_alleles_range_array row)"
    using assms(1) by (simp add: grp_ac_expr_def)
  have sub: "set ?rs \<subseteq> set (entries row)" by (auto simp: agg_filter_def)
  have "raw_allele_sum adj_expr row i \<le> 2 * int (length ?rs)"
    unfolding raw_allele_sum_def grp_ac_expr_def nth_map [OF i]
  proof (rule two_groups_le)
    show "Some True \<noteq> Some False" by simp
    fix r x
    assume "r \<in> set ?rs" and d: "allele_dosage r (alt_alleles_range_array row ! i) = Some x"
    with sub assms(2) have "case LGT r of None \<Rightarrow> True | Some call \<Rightarrow> length call \<le> 2"
      by (auto simp: list_all_iff)
    with d show "x \<le> 2" by (rule allele_dosage_le)
  qed
  moreover have "length ?rs \<le> length (entries row)" by (simp add: agg_filter_def)
  ultimately show ?thesis by linarith
qed


text \<open>
  C8. On a callset, every row that \<^verbatim>\<open>compute_info\<close> returns has one \<^verbatim>\<open>AC\<close> and one
  \<^verbatim>\<open>AC_raw\<close> value per alternate allele, and \<open>0 \<le> AC[i] \<le> AC_raw[i]\<close> for each
  of them: both are sums of non-negative dosages, the raw one over the adj and the non-adj
  group, and neither reaches the 32-bit limit.
\<close>

theorem AC_nonneg_le_AC_raw:
  assumes "diploid_callset mt"
    and "(ac, ac_raw) \<in> set (compute_info adj_expr mt)"
  shows "length ac_raw = length ac \<and>
         (\<forall>i < length ac. 0 \<le> ac ! i \<and> ac ! i \<le> ac_raw ! i)"
proof -
  from AC_le_AC_raw_bounded [OF assms(2)]
  obtain row where row: "row \<in> set mt" "ac = AC adj_expr row" "ac_raw = AC_raw adj_expr row"
    "length ac_raw = length ac"
    and bounded: "\<forall>i < length ac. raw_allele_sum adj_expr row i < 2 ^ 31 \<longrightarrow>
        0 \<le> ac ! i \<and> ac ! i \<le> ac_raw ! i"
    by blast
  from assms(1) row(1)
  have few: "length (entries row) < 2 ^ 30"
    and diploid: "list_all (\<lambda>e. case LGT e of None \<Rightarrow> True | Some call \<Rightarrow> length call \<le> 2)
        (entries row)"
    by (auto simp: diploid_callset_def list_all_iff)
  have "raw_allele_sum adj_expr row i < 2 ^ 31" if "i < length ac" for i
  proof -
    from that row(2) have "i < length (grp_ac_expr adj_expr row)" by (simp add: length_AC)
    from raw_allele_sum_le [OF this diploid]
    have "raw_allele_sum adj_expr row i \<le> 2 * int (length (entries row))" .
    also have "\<dots> < 2 ^ 31" using few by simp
    finally show ?thesis .
  qed
  with bounded row(4) show ?thesis by blast
qed

theorem AC_nonneg_le_AC_raw_witness:
  "diploid_callset [small_row] \<and>
   (AC gq_adj small_row, AC_raw gq_adj small_row) \<in> set (compute_info gq_adj [small_row]) \<and>
   AC gq_adj small_row = [2] \<and> AC_raw gq_adj small_row = [3] \<and>
   0 \<le> AC gq_adj small_row ! 0 \<and> AC gq_adj small_row ! 0 \<le> AC_raw gq_adj small_row ! 0"
proof -
  have callset: "diploid_callset [small_row]"
    by (simp add: diploid_callset_def small_row_def hom_var_entry_def het_low_gq_entry_def)
  have mem: "(AC gq_adj small_row, AC_raw gq_adj small_row) \<in> set (compute_info gq_adj [small_row])"
    by (simp add: compute_info_def small_row_def)
  from AC_nonneg_le_AC_raw [OF callset mem]
  have "0 \<le> AC gq_adj small_row ! 0 \<and> AC gq_adj small_row ! 0 \<le> AC_raw gq_adj small_row ! 0"
    by (simp add: small_row_counts)
  with callset mem show ?thesis by (simp add: small_row_counts)
qed

lemma strand_odds_ratio_defined:
  fixes a b c d :: real
  assumes "1 \<le> a" "1 \<le> b" "1 \<le> c" "1 \<le> d"
  shows "0 < (a * d) / (c * b) + (c * b) / (a * d)"
    and "0 < min b a / max b a"
    and "0 < min c d / max c d"
proof -
  have pos: "0 < a" "0 < b" "0 < c" "0 < d" using assms by simp_all
  then have "0 < (a * d) / (c * b)" "0 < (c * b) / (a * d)" by simp_all
  then show "0 < (a * d) / (c * b) + (c * b) / (a * d)" by simp
  show "0 < min b a / max b a" using pos by (simp add: min_def max_def)
  show "0 < min c d / max c d" using pos by (simp add: min_def max_def)
qed

text \<open>
  C3. For four non-negative counts, \<^verbatim>\<open>calc_SOR\<close> is the strand odds ratio of the
  counts with the pseudocount 1 added to each, and each of the three logarithms is taken of
  a positive number.
\<close>

theorem calc_SOR_is_strand_odds_ratio:
  assumes "0 \<le> refFw" "0 \<le> refRv" "0 \<le> altFw" "0 \<le> altRv"
  shows "calc_SOR [refFw, refRv, altFw, altRv] =
           Inr (strand_odds_ratio (real_of_int refFw + 1) (real_of_int refRv + 1)
                  (real_of_int altFw + 1) (real_of_int altRv + 1)) \<and>
         0 < ((real_of_int refFw + 1) * (real_of_int altRv + 1)) /
               ((real_of_int altFw + 1) * (real_of_int refRv + 1)) +
             ((real_of_int altFw + 1) * (real_of_int refRv + 1)) /
               ((real_of_int refFw + 1) * (real_of_int altRv + 1)) \<and>
         0 < min (real_of_int refRv + 1) (real_of_int refFw + 1) /
             max (real_of_int refRv + 1) (real_of_int refFw + 1) \<and>
         0 < min (real_of_int altFw + 1) (real_of_int altRv + 1) /
             max (real_of_int altFw + 1) (real_of_int altRv + 1)"
proof -
  have ge: "1 \<le> real_of_int refFw + 1" "1 \<le> real_of_int refRv + 1"
    "1 \<le> real_of_int altFw + 1" "1 \<le> real_of_int altRv + 1"
    using assms by simp_all
  have eq: "calc_SOR [refFw, refRv, altFw, altRv] =
           Inr (strand_odds_ratio (real_of_int refFw + 1) (real_of_int refRv + 1)
                  (real_of_int altFw + 1) (real_of_int altRv + 1))"
    by (simp add: calc_SOR_def strand_odds_ratio_def Let_def)
  show ?thesis
    using eq strand_odds_ratio_defined [OF ge] by blast
qed

theorem calc_SOR_is_strand_odds_ratio_witness:
  "calc_SOR [0, 0, 0, 0] = Inr (ln 2) \<and> calc_SOR [3, 1, 0, 1] = Inr (ln (17 / 4))"
proof -
  have a: "calc_SOR [0, 0, 0, 0] = Inr (strand_odds_ratio 1 1 1 1)"
    using calc_SOR_is_strand_odds_ratio [of 0 0 0 0] by simp
  have b: "calc_SOR [3, 1, 0, 1] = Inr (strand_odds_ratio 4 2 1 2)"
    using calc_SOR_is_strand_odds_ratio [of 3 1 0 1] by simp
  have c: "strand_odds_ratio 1 1 1 1 = ln 2"
    by (simp add: strand_odds_ratio_def)
  have d: "strand_odds_ratio 4 2 1 2 = ln (17 / 4)"
    by (simp add: strand_odds_ratio_def)
  show ?thesis using a b c d by simp
qed

end
